theory Spec2Isabelle
  imports Complex_Main "HOL-Library.Multiset" "HOL-Library.Sublist"
begin

section \<open>Data model\<close>

text \<open>
  Values of the request body after \<^verbatim>\<open>JSON.parse\<close> and destructuring. Numbers are the
  finite numbers JSON can carry; every comparison the handlers make on them (against
  80, 1000 and between two stored values) is exact on IEEE doubles, so they are
  modelled as rationals. \<open>JObject\<close> stands for any array or object (always truthy).
\<close>

datatype jsval = JUndefined | JNull | JBool bool | JNum rat | JStr string | JObject

text \<open>JavaScript's \<^verbatim>\<open>!v\<close>.\<close>

fun falsy :: "jsval \<Rightarrow> bool" where
  "falsy JUndefined = True"
| "falsy JNull = True"
| "falsy (JBool b) = (\<not> b)"
| "falsy (JNum r) = (r = 0)"
| "falsy (JStr s) = (s = [])"
| "falsy JObject = False"

text \<open>JavaScript's \<^verbatim>\<open>v || d\<close>.\<close>

definition or_default :: "jsval \<Rightarrow> jsval \<Rightarrow> jsval" where
  "or_default v d = (if falsy v then d else v)"

text \<open>
  The score object \<^verbatim>\<open>{ ms, timestamp, id, playerName, playerId, season }\<close> built by
  the score function. Instants are milliseconds since the Unix epoch (the ISO-8601
  rendering of \<^verbatim>\<open>toISOString\<close> is not modelled); \<open>id_tok\<close> is the field \<^verbatim>\<open>id\<close>.
\<close>

record score =
  ms :: rat
  timestamp :: int
  id_tok :: string
  playerName :: jsval
  playerId :: jsval
  season :: int

section \<open>Leaderboard merge (score function, step 6 and step 8)\<close>

text \<open>
  \<^verbatim>\<open>[...currentTop, newScore].sort((a, b) => a.ms - b.ms).slice(0, 10)\<close>.
  \<^verbatim>\<open>Array.prototype.sort\<close> is stable (ECMAScript 2019), and so is \<^const>\<open>sort_key\<close>;
  the sign of \<^verbatim>\<open>a.ms - b.ms\<close> is the order of the two numbers.
\<close>

definition updatedTop :: "score list \<Rightarrow> score \<Rightarrow> score list" where
  "updatedTop currentTop newScore = take 10 (sort_key ms (currentTop @ [newScore]))"

text \<open>
  \<^verbatim>\<open>currentTop[0]?.ms || Infinity\<close>: \<open>None\<close> is \<^verbatim>\<open>Infinity\<close>. The first entry's
  value is replaced by \<^verbatim>\<open>Infinity\<close> when there is no first entry and also when the
  value is falsy, that is 0.
\<close>

definition firstMs :: "score list \<Rightarrow> rat option" where
  "firstMs currentTop =
     (case currentTop of
        [] \<Rightarrow> None
      | e # _ \<Rightarrow> if ms e = 0 then None else Some (ms e))"

text \<open>\<^verbatim>\<open>const isNewRecord = ms <= (currentTop[0]?.ms || Infinity)\<close>.\<close>

definition isNewRecord :: "score list \<Rightarrow> rat \<Rightarrow> bool" where
  "isNewRecord currentTop m =
     (case firstMs currentTop of None \<Rightarrow> True | Some b \<Rightarrow> m \<le> b)"

text \<open>\<^verbatim>\<open>Array.prototype.findIndex\<close>: the first index whose element satisfies the
  predicate, \<open>-1\<close> when there is none.\<close>

fun findIndex :: "('a \<Rightarrow> bool) \<Rightarrow> 'a list \<Rightarrow> int" where
  "findIndex P [] = - 1"
| "findIndex P (x # xs) =
     (if P x then 0
      else (let i = findIndex P xs in if i = - 1 then - 1 else i + 1))"

text \<open>\<^verbatim>\<open>const position = updatedTop.findIndex(score => score.id === id) + 1\<close>.\<close>

definition position :: "score list \<Rightarrow> string \<Rightarrow> int" where
  "position top' i = findIndex (\<lambda>s. id_tok s = i) top' + 1"

text \<open>The response field \<^verbatim>\<open>position: position || null\<close>; \<open>None\<close> is \<^verbatim>\<open>null\<close>.\<close>

definition rank :: "score list \<Rightarrow> string \<Rightarrow> int option" where
  "rank top' i = (let p = position top' i in if p = 0 then None else Some p)"

section \<open>Season number\<close>

text \<open>\<^verbatim>\<open>new Date('2025-01-15T00:00:00Z')\<close> in milliseconds since the Unix epoch.\<close>

definition seasonStart :: int where
  "seasonStart = 1736899200000"

text \<open>
  Season reset function:
  \<^verbatim>\<open>Math.floor((currentDate - seasonStart) / (1000 * 60 * 60 * 24))\<close> and
  \<^verbatim>\<open>Math.floor(daysSinceStart / 90) + 1\<close>. Both operands are integers and \<open>div\<close> on
  \<^typ>\<open>int\<close> rounds towards minus infinity, as \<^verbatim>\<open>Math.floor\<close> of the quotient does.
  (A date is an integer of at most 8.64e15 milliseconds in absolute value; the rounding
  of the double quotient, below 1e-8, is smaller than the distance 1 / 86400000 of an
  inexact quotient to the next integer, so the floor of the double is the floor of the
  exact quotient.)
\<close>

definition reset_daysSinceStart :: "int \<Rightarrow> int" where
  "reset_daysSinceStart currentDate = (currentDate - seasonStart) div (1000 * 60 * 60 * 24)"

definition reset_currentSeason :: "int \<Rightarrow> int" where
  "reset_currentSeason currentDate = reset_daysSinceStart currentDate div 90 + 1"

text \<open>Score function: the same two lines, on its own reading of the clock.\<close>

definition score_daysSinceStart :: "int \<Rightarrow> int" where
  "score_daysSinceStart now = (now - seasonStart) div (1000 * 60 * 60 * 24)"

definition score_currentSeason :: "int \<Rightarrow> int" where
  "score_currentSeason now = score_daysSinceStart now div 90 + 1"

text \<open>
  The specification's formula, in its own words:
  \<open>currentSeason = floor((now - epoch) / periodLength) + 1\<close>.
\<close>

definition spec_currentSeason :: "int \<Rightarrow> int \<Rightarrow> int \<Rightarrow> int" where
  "spec_currentSeason epoch periodLength now = (now - epoch) div periodLength + 1"

text \<open>A period of 90 days, in milliseconds.\<close>

definition periodLength :: int where
  "periodLength = 90 * (1000 * 60 * 60 * 24)"

section \<open>Versioned document store\<close>

text \<open>
  The three fixed document paths: \<^verbatim>\<open>reaction/latest.json\<close>, \<^verbatim>\<open>reaction/top.json\<close>
  and \<^verbatim>\<open>reaction/archive/season-${N}.json\<close>.
\<close>

datatype path = LatestJson | TopJson | ArchiveJson int

text \<open>
  The JSON documents the functions write:
  \<^item> \<open>Score\<close>: the score object itself (what the score function puts in the latest
    document);
  \<^item> \<open>TopData\<close>: \<^verbatim>\<open>{ top, last_updated }\<close>;
  \<^item> \<open>NewTopScores\<close>: \<^verbatim>\<open>{ top, last_updated, season, season_start }\<close>;
  \<^item> \<open>NewLatestScore\<close>: \<^verbatim>\<open>{ latest: null, last_updated, season }\<close>;
  \<^item> \<open>ArchiveData\<close>: \<^verbatim>\<open>{ season, season_end, top_scores, total_players }\<close>.
\<close>

datatype document =
    Score score
  | TopData "score list" int
  | NewTopScores "score list" int int int
  | NewLatestScore int int
  | ArchiveData int int "score list" nat

text \<open>\<^verbatim>\<open>content.top || []\<close>: the field \<^verbatim>\<open>top\<close> where the document has one.\<close>

fun doc_top :: "document \<Rightarrow> score list" where
  "doc_top (TopData t _) = t"
| "doc_top (NewTopScores t _ _ _) = t"
| "doc_top _ = []"

record github_file =
  content :: document
  sha :: nat

type_synonym store = "path \<Rightarrow> github_file option"

text \<open>
  An answer of the store that is not \<^verbatim>\<open>ok\<close>: bad credentials (401), access denied (403),
  not found (404), version conflict (409), a missing \<^verbatim>\<open>sha\<close> (422), or a server-side
  failure with its 5xx status.
\<close>

datatype failure =
  BadCredentials | AccessDenied | NotFound | Conflict | ShaRequired | ServerError nat

text \<open>The HTTP status of such an answer.\<close>

fun status :: "failure \<Rightarrow> nat" where
  "status BadCredentials = 401"
| "status AccessDenied = 403"
| "status NotFound = 404"
| "status Conflict = 409"
| "status ShaRequired = 422"
| "status (ServerError n) = n"

text \<open>
  A request to the store that does not succeed: no answer arrives and the request
  itself throws (a network failure, with the message of the exception), or the store
  answers with a failure.
\<close>

datatype refusal = Unreachable string | Refused failure

text \<open>
  Modelled from the spec: the backing store is the external versioned repository
  service, reached over HTTP; none of its code is in this repository. Section 4.1:
  \<open>read(path)\<close> returns the document with its version token and fails with
  \<open>NotFound\<close> when the path does not exist, with \<open>AccessDenied\<close> when the caller lacks
  rights and with \<open>TransientError\<close> on a network or server-side failure. When a request
  is denied or fails transiently is not a matter of the documents: the environment
  decides it, and the second argument is its decision for this request (\<open>None\<close> when the
  service is reached and serves the request). The flag says whether the request carries
  a valid access token.
\<close>

definition store_get :: "bool \<Rightarrow> refusal option \<Rightarrow> store \<Rightarrow> path \<Rightarrow> refusal + github_file" where
  "store_get authorized trouble st p =
     (case trouble of
        Some r \<Rightarrow> Inl r
      | None \<Rightarrow>
          if \<not> authorized then Inl (Refused BadCredentials)
          else case st p of None \<Rightarrow> Inl (Refused NotFound) | Some f \<Rightarrow> Inr f)"

text \<open>
  Modelled from the spec: sections 3 and 4.1. A version token is required to perform a
  write, and a write whose token no longer matches the document's current version is
  rejected with \<open>VersionConflict\<close>; a write also fails with \<open>AccessDenied\<close> and with
  \<open>TransientError\<close>, by the environment's decision as for a read, and a write that fails
  leaves the documents as they are (section 7). A request without a token creates a
  path that does not exist and is rejected on a path that exists (the service answers
  422, the field \<^verbatim>\<open>sha\<close> being required to update a file). A successful write gives the
  document a new version token.
\<close>

definition store_put ::
  "bool \<Rightarrow> refusal option \<Rightarrow> store \<Rightarrow> path \<Rightarrow> document \<Rightarrow> nat option \<Rightarrow> refusal + store" where
  "store_put authorized trouble st p c token =
     (case trouble of
        Some r \<Rightarrow> Inl r
      | None \<Rightarrow>
          if \<not> authorized then Inl (Refused BadCredentials)
          else case st p of
            None \<Rightarrow>
              (case token of
                 None \<Rightarrow> Inr (st(p \<mapsto> \<lparr>content = c, sha = 0\<rparr>))
               | Some h \<Rightarrow> Inl (Refused Conflict))
          | Some f \<Rightarrow>
              (case token of
                 None \<Rightarrow> Inl (Refused ShaRequired)
               | Some h \<Rightarrow>
                   if h = sha f then Inr (st(p \<mapsto> \<lparr>content = c, sha = Suc (sha f)\<rparr>))
                   else Inl (Refused Conflict)))"

section \<open>Requests, responses and the environment\<close>

text \<open>
  \<^verbatim>\<open>JSON.parse(event.body)\<close> followed by the destructuring
  \<^verbatim>\<open>const { ms, playerName, playerId } = ...\<close>: either an exception (a body that is not
  JSON, or the JSON value \<^verbatim>\<open>null\<close>, which cannot be destructured) with its message, or
  the three values read, \<open>JUndefined\<close> for a missing field.
\<close>

datatype body = Unparsable string | Destructured jsval jsval jsval

record event =
  httpMethod :: string
  body :: body

text \<open>
  The \<^verbatim>\<open>message\<close> of the error that reaches a \<^verbatim>\<open>catch\<close> block:
  \<^item> \<open>AuthFailed\<close>: \<^verbatim>\<open>'GitHub authentication failed'\<close>;
  \<^item> \<open>FetchFailed path status\<close>: \<^verbatim>\<open>`Failed to fetch ${path}: ${response.status}`\<close>;
  \<^item> \<open>UpdateFailed path failure\<close>: \<^verbatim>\<open>`Failed to update ${path}: ${error}`\<close>, where
    \<^verbatim>\<open>error\<close> is the text of the store's answer, which names the failure;
  \<^item> \<open>MissingCredentials\<close>: \<^verbatim>\<open>'Missing GitHub App credentials'\<close>;
  \<^item> \<open>RequestError refusal\<close>: the error the Octokit client throws for a request that
    does not succeed, whose message is the store's (or the network's);
  \<^item> \<open>KeyFormat m1 m2\<close>:
    \<^verbatim>\<open>`Without replacement: ${error.message}, With replacement: ${error2.message}`\<close>;
  \<^item> \<open>Thrown message\<close>: any other exception.
\<close>

datatype js_error =
    AuthFailed
  | FetchFailed path nat
  | UpdateFailed path failure
  | MissingCredentials
  | RequestError refusal
  | KeyFormat string string
  | Thrown string

text \<open>
  The JSON of a response body:
  \<^item> \<open>ErrorOnly\<close>: \<^verbatim>\<open>{ error }\<close>;
  \<^item> \<open>ErrorDetails\<close>: \<^verbatim>\<open>{ error, details }\<close>;
  \<^item> \<open>ResetFailed\<close>: \<^verbatim>\<open>{ success: false, error, details }\<close>;
  \<^item> \<open>ScoreSaved\<close>: \<^verbatim>\<open>{ success: true, score, isNewRecord, position, message }\<close> (the
    message is a function of the other fields and is left out);
  \<^item> \<open>SeasonReset\<close>: \<^verbatim>\<open>{ success: true, message, archived_season, new_season,
    archive_path }\<close>, by its two season numbers;
  \<^item> \<open>KeyChecked\<close>: the success body of the key check.
\<close>

datatype response_body =
    ErrorOnly string
  | ErrorDetails string js_error
  | ResetFailed string js_error
  | ScoreSaved score bool "int option"
  | SeasonReset int int
  | KeyChecked

record response =
  statusCode :: nat
  resp_body :: response_body

text \<open>Requests that leave the function: the token exchange and the store calls.\<close>

datatype effect = TokenExchange | StoreRead path | StoreWrite path

text \<open>
  Credential acquisition, as its outcome: an exception before any request is sent
  (a missing key, \<^verbatim>\<open>jwt.sign\<close> throwing), an exception of the exchange request itself,
  an answer that is not \<^verbatim>\<open>ok\<close>, or a token.
\<close>

datatype credential_outcome =
    MintThrows string
  | ExchangeThrows string
  | ExchangeRejected
  | Granted

section \<open>Score function\<close>

text \<open>
  The function of \<^verbatim>\<open>save-reaction-score\<close>. Its earlier copy among the examples has the
  same control flow, the same validation, store calls, merge and response; it lacks the
  fields \<^verbatim>\<open>playerName\<close>, \<^verbatim>\<open>playerId\<close> and \<^verbatim>\<open>season\<close> of the score object and the
  reformatting of the private key.

  What the function reads from its environment: the clock (once for the timestamp, once
  for the season), \<^verbatim>\<open>Math.random().toString(16).substr(2, 8)\<close>, the outcome of
  credential acquisition, the writes of other invocations that reach the store
  after this invocation has read its two documents and before it writes, and, for each
  of its four store requests, whether the service is unreachable, fails or denies
  access (\<open>trouble\<close>).
\<close>

record score_world =
  clock_timestamp :: int
  clock_season :: int
  random_id :: string
  credential :: credential_outcome
  concurrent :: "store \<Rightarrow> store"
  trouble :: "effect \<Rightarrow> refusal option"

text \<open>
  \<^verbatim>\<open>!ms || typeof ms !== 'number' || ms < 80 || ms > 1000\<close>, evaluated left to right.
\<close>

definition invalid_ms :: "jsval \<Rightarrow> bool" where
  "invalid_ms v =
     (if falsy v then True
      else case v of
        JNum r \<Rightarrow> r < 80 \<or> r > 1000
      | _ \<Rightarrow> True)"

text \<open>The number in a value that passed the validation.\<close>

fun num :: "jsval \<Rightarrow> rat" where
  "num (JNum r) = r"
| "num _ = 0"

text \<open>
  \<^verbatim>\<open>{ ms, timestamp, id, playerName: playerName || 'Anonymous',
  playerId: playerId || 'unknown', season: currentSeason }\<close>.
\<close>

definition newScore :: "score_world \<Rightarrow> jsval \<Rightarrow> jsval \<Rightarrow> jsval \<Rightarrow> score" where
  "newScore w v pn pid =
     \<lparr>ms = num v,
      timestamp = clock_timestamp w,
      id_tok = random_id w,
      playerName = or_default pn (JStr ''Anonymous''),
      playerId = or_default pid (JStr ''unknown''),
      season = score_currentSeason (clock_season w)\<rparr>"

text \<open>
  The helper \<^verbatim>\<open>getGitHubFile\<close>: a response that is not \<^verbatim>\<open>ok\<close> is thrown with its status;
  an exception of \<^verbatim>\<open>fetch\<close> itself passes through.
\<close>

definition getGitHubFile :: "refusal option \<Rightarrow> store \<Rightarrow> path \<Rightarrow> js_error + github_file" where
  "getGitHubFile t st p =
     (case store_get True t st p of
        Inl (Unreachable m) \<Rightarrow> Inl (Thrown m)
      | Inl (Refused f) \<Rightarrow> Inl (FetchFailed p (status f))
      | Inr file \<Rightarrow> Inr file)"

text \<open>
  The helper \<^verbatim>\<open>updateGitHubFile(path, content, sha, message)\<close>: the request carries the
  \<^verbatim>\<open>sha\<close> it is given; a response that is not \<^verbatim>\<open>ok\<close> is thrown with its text; an
  exception of \<^verbatim>\<open>fetch\<close> itself passes through. The commit message does not reach the
  documents and is left out.
\<close>

definition updateGitHubFile ::
  "refusal option \<Rightarrow> store \<Rightarrow> path \<Rightarrow> document \<Rightarrow> nat \<Rightarrow> js_error + store" where
  "updateGitHubFile t st p c h =
     (case store_put True t st p c (Some h) of
        Inl (Unreachable m) \<Rightarrow> Inl (Thrown m)
      | Inl (Refused f) \<Rightarrow> Inl (UpdateFailed p f)
      | Inr st' \<Rightarrow> Inr st')"

text \<open>The \<^verbatim>\<open>catch\<close> block of the score function.\<close>

definition save_failed :: "js_error \<Rightarrow> response" where
  "save_failed e = \<lparr>statusCode = 500, resp_body = ErrorDetails ''Failed to save score'' e\<rparr>"

text \<open>
  Steps 4 to 8, after the token exchange: read both documents
  (\<^verbatim>\<open>Promise.all\<close> sends both requests; where both fail the model reports the first of
  the two), write the latest document with the version token read for it, merge, write
  the leaderboard with its version token, answer. An exception leaves the store as the
  writes so far have made it.
\<close>

definition save_documents :: "score_world \<Rightarrow> score \<Rightarrow> store \<Rightarrow> response \<times> store \<times> effect list" where
  "save_documents w s st =
     (let reads = [TokenExchange, StoreRead LatestJson, StoreRead TopJson] in
      case getGitHubFile (trouble w (StoreRead LatestJson)) st LatestJson of
        Inl e \<Rightarrow> (save_failed e, st, reads)
      | Inr latestFile \<Rightarrow>
     (case getGitHubFile (trouble w (StoreRead TopJson)) st TopJson of
        Inl e \<Rightarrow> (save_failed e, st, reads)
      | Inr topFile \<Rightarrow>
     (let st1 = concurrent w st in
      case updateGitHubFile (trouble w (StoreWrite LatestJson)) st1 LatestJson (Score s)
             (sha latestFile) of
        Inl e \<Rightarrow> (save_failed e, st1, reads @ [StoreWrite LatestJson])
      | Inr st2 \<Rightarrow>
     (let currentTop = doc_top (content topFile);
          top' = updatedTop currentTop s
      in
      case updateGitHubFile (trouble w (StoreWrite TopJson)) st2 TopJson
             (TopData top' (timestamp s)) (sha topFile) of
        Inl e \<Rightarrow> (save_failed e, st2, reads @ [StoreWrite LatestJson, StoreWrite TopJson])
      | Inr st3 \<Rightarrow>
          (\<lparr>statusCode = 200,
            resp_body = ScoreSaved s (isNewRecord currentTop (ms s)) (rank top' (id_tok s))\<rparr>,
           st3, reads @ [StoreWrite LatestJson, StoreWrite TopJson])))))"

text \<open>\<^verbatim>\<open>exports.handler\<close> of the score function.\<close>

definition save_reaction_score :: "score_world \<Rightarrow> event \<Rightarrow> store \<Rightarrow> response \<times> store \<times> effect list" where
  "save_reaction_score w ev st =
     (if httpMethod ev \<noteq> ''POST'' then
        (\<lparr>statusCode = 405, resp_body = ErrorOnly ''Method not allowed''\<rparr>, st, [])
      else case body ev of
        Unparsable m \<Rightarrow> (save_failed (Thrown m), st, [])
      | Destructured v pn pid \<Rightarrow>
          if invalid_ms v then
            (\<lparr>statusCode = 400,
              resp_body = ErrorOnly ''Invalid reaction time. Must be between 80-1000ms.''\<rparr>,
             st, [])
          else
            (case credential w of
               MintThrows m \<Rightarrow> (save_failed (Thrown m), st, [])
             | ExchangeThrows m \<Rightarrow> (save_failed (Thrown m), st, [TokenExchange])
             | ExchangeRejected \<Rightarrow> (save_failed AuthFailed, st, [TokenExchange])
             | Granted \<Rightarrow> save_documents w (newScore w v pn pid) st))"

section \<open>Season reset function\<close>

text \<open>
  What the function reads from its environment: whether the three credential variables
  are set, the outcome of \<^verbatim>\<open>getGitHubToken\<close>, the clock (\<^verbatim>\<open>currentDate\<close>, read
  once), and, for each of its four store requests, whether the service is unreachable,
  fails or denies access. It reads nothing of the event but the method.
\<close>

record reset_world =
  credentials_present :: bool
  reset_credential :: credential_outcome
  currentDate :: int
  reset_trouble :: "effect \<Rightarrow> refusal option"

text \<open>The \<^verbatim>\<open>catch\<close> block of the season reset function.\<close>

definition reset_failed :: "js_error \<Rightarrow> response" where
  "reset_failed e = \<lparr>statusCode = 500, resp_body = ResetFailed ''Failed to reset season'' e\<rparr>"

text \<open>
  The inner \<^verbatim>\<open>try\<close> around the read of the leaderboard: \<^verbatim>\<open>top_scores\<close> and
  \<^verbatim>\<open>total_players\<close> keep their initial values \<^verbatim>\<open>[]\<close> and \<^verbatim>\<open>0\<close> when the read throws
  (the \<^verbatim>\<open>catch\<close> only logs).
\<close>

definition archived_scores :: "bool \<Rightarrow> refusal option \<Rightarrow> store \<Rightarrow> score list \<times> nat" where
  "archived_scores authorized t st =
     (case store_get authorized t st TopJson of
        Inl f \<Rightarrow> ([], 0)
      | Inr topResponse \<Rightarrow>
          (doc_top (content topResponse), length (doc_top (content topResponse))))"

text \<open>
  The body of the function after the client is initialised: the season from the clock,
  the three documents, and three \<^verbatim>\<open>createOrUpdateFileContents\<close> requests, none of which
  carries a \<^verbatim>\<open>sha\<close>. The flag says whether \<^verbatim>\<open>getGitHubToken\<close> returned a token.
\<close>

definition rotate :: "reset_world \<Rightarrow> bool \<Rightarrow> store \<Rightarrow> response \<times> store \<times> effect list" where
  "rotate w authorized st =
     (let currentSeason = reset_currentSeason (currentDate w);
          newTopScores = NewTopScores [] (currentDate w) (currentSeason + 1)
            (seasonStart + currentSeason * 90 * 24 * 60 * 60 * 1000);
          newLatestScore = NewLatestScore (currentDate w) (currentSeason + 1);
          read = archived_scores authorized (reset_trouble w (StoreRead TopJson)) st;
          archiveData = ArchiveData currentSeason (currentDate w) (fst read) (snd read);
          sent = [TokenExchange, StoreRead TopJson, StoreWrite (ArchiveJson currentSeason)]
      in
      case store_put authorized (reset_trouble w (StoreWrite (ArchiveJson currentSeason))) st
             (ArchiveJson currentSeason) archiveData None of
        Inl f \<Rightarrow> (reset_failed (RequestError f), st, sent)
      | Inr st1 \<Rightarrow>
     (case store_put authorized (reset_trouble w (StoreWrite TopJson)) st1 TopJson
             newTopScores None of
        Inl f \<Rightarrow> (reset_failed (RequestError f), st1, sent @ [StoreWrite TopJson])
      | Inr st2 \<Rightarrow>
     (case store_put authorized (reset_trouble w (StoreWrite LatestJson)) st2 LatestJson
             newLatestScore None of
        Inl f \<Rightarrow>
          (reset_failed (RequestError f), st2, sent @ [StoreWrite TopJson, StoreWrite LatestJson])
      | Inr st3 \<Rightarrow>
          (\<lparr>statusCode = 200, resp_body = SeasonReset currentSeason (currentSeason + 1)\<rparr>,
           st3, sent @ [StoreWrite TopJson, StoreWrite LatestJson]))))"

text \<open>
  \<^verbatim>\<open>exports.handler\<close> of the season reset function. \<^verbatim>\<open>getGitHubToken\<close> does not look
  at the status of the exchange: after a rejected exchange the client is built with a
  token that is \<^verbatim>\<open>undefined\<close> and the function goes on.
\<close>

definition season_reset :: "reset_world \<Rightarrow> event \<Rightarrow> store \<Rightarrow> response \<times> store \<times> effect list" where
  "season_reset w ev st =
     (if httpMethod ev \<noteq> ''POST'' then
        (\<lparr>statusCode = 405, resp_body = ErrorOnly ''Method not allowed''\<rparr>, st, [])
      else if \<not> credentials_present w then (reset_failed MissingCredentials, st, [])
      else case reset_credential w of
        MintThrows m \<Rightarrow> (reset_failed (Thrown m), st, [])
      | ExchangeThrows m \<Rightarrow> (reset_failed (Thrown m), st, [TokenExchange])
      | ExchangeRejected \<Rightarrow> rotate w False st
      | Granted \<Rightarrow> rotate w True st)"

section \<open>Key check function\<close>

text \<open>
  \<^verbatim>\<open>exports.handler\<close> of \<^verbatim>\<open>debug-key\<close>. Its environment is the outcome of the two
  attempts at \<^verbatim>\<open>jwt.sign\<close>, with the key as it is and with its newlines replaced: the
  message of the exception, or \<open>None\<close> when the attempt succeeds. The function sends no
  request.
\<close>

record debug_world =
  sign_raw :: "string option"
  sign_processed :: "string option"

definition debug_key :: "debug_world \<Rightarrow> event \<Rightarrow> response \<times> effect list" where
  "debug_key w ev =
     (if httpMethod ev \<noteq> ''POST'' then
        (\<lparr>statusCode = 405, resp_body = ErrorOnly ''Method not allowed''\<rparr>, [])
      else case sign_raw w of
        None \<Rightarrow> (\<lparr>statusCode = 200, resp_body = KeyChecked\<rparr>, [])
      | Some m1 \<Rightarrow>
          (case sign_processed w of
             None \<Rightarrow> (\<lparr>statusCode = 200, resp_body = KeyChecked\<rparr>, [])
           | Some m2 \<Rightarrow>
               (\<lparr>statusCode = 500,
                 resp_body = ErrorDetails ''Private key format issue'' (KeyFormat m1 m2)\<rparr>, [])))"

section \<open>Example data\<close>

text \<open>A score object with the given value and \<^verbatim>\<open>id\<close>, for the concrete instances below.\<close>

definition entry :: "rat \<Rightarrow> string \<Rightarrow> score" where
  "entry m i =
     \<lparr>ms = m, timestamp = 0, id_tok = i, playerName = JStr ''Anonymous'',
      playerId = JStr ''unknown'', season = 1\<rparr>"

text \<open>A full leaderboard: ten entries, values 100, 110, ..., 190.\<close>

definition full_board :: "score list" where
  "full_board =
     [entry 100 ''e0'', entry 110 ''e1'', entry 120 ''e2'', entry 130 ''e3'', entry 140 ''e4'',
      entry 150 ''e5'', entry 160 ''e6'', entry 170 ''e7'', entry 180 ''e8'', entry 190 ''e9'']"

text \<open>A POST request whose body is \<^verbatim>\<open>{ "ms": m }\<close>.\<close>

definition submission :: "rat \<Rightarrow> event" where
  "submission m = \<lparr>httpMethod = ''POST'', body = Destructured (JNum m) JUndefined JUndefined\<rparr>"

text \<open>A POST request whose body is \<^verbatim>\<open>{}\<close>, and a GET request.\<close>

definition reset_request :: event where
  "reset_request = \<lparr>httpMethod = ''POST'', body = Destructured JUndefined JUndefined JUndefined\<rparr>"

definition get_request :: event where
  "get_request = \<lparr>httpMethod = ''GET'', body = Unparsable ''Unexpected end of JSON input''\<rparr>"

text \<open>
  An environment of the score function one second into the first season, with a token
  granted, no other writer and a store that serves every request.
\<close>

definition quiet_world :: "string \<Rightarrow> score_world" where
  "quiet_world i =
     \<lparr>clock_timestamp = seasonStart + 1000, clock_season = seasonStart + 1000, random_id = i,
      credential = Granted, concurrent = (\<lambda>st. st), trouble = (\<lambda>e. None)\<rparr>"





text \<open>A POST request whose body is not JSON.\<close>

definition garbled_request :: event where
  "garbled_request =
     \<lparr>httpMethod = ''POST'', body = Unparsable ''Unexpected token o in JSON at position 1''\<rparr>"

text \<open>An environment of the season reset function at the given instant.\<close>

definition admin_world :: "int \<Rightarrow> reset_world" where
  "admin_world t =
     \<lparr>credentials_present = True, reset_credential = Granted, currentDate = t,
      reset_trouble = (\<lambda>e. None)\<rparr>"

definition keys_world :: debug_world where
  "keys_world = \<lparr>sign_raw = None, sign_processed = None\<rparr>"

text \<open>A store with the two documents of a season that has just started.\<close>

definition fresh_store :: store where
  "fresh_store =
     [LatestJson \<mapsto> \<lparr>content = NewLatestScore seasonStart 1, sha = 0\<rparr>,
      TopJson \<mapsto> \<lparr>content = NewTopScores [] seasonStart 1 seasonStart, sha = 0\<rparr>]"

section \<open>The merge\<close>

lemma updatedTop_split:
  "updatedTop cur new @ drop 10 (sort_key ms (cur @ [new])) = sort_key ms (cur @ [new])"
  by (simp add: updatedTop_def)

lemma updatedTop_length: "length (updatedTop cur new) = min 10 (length cur + 1)"
  by (simp add: updatedTop_def min_def)

lemma updatedTop_sorted: "sorted (map ms (updatedTop cur new))"
proof -
  have "sorted (map ms (updatedTop cur new @ drop 10 (sort_key ms (cur @ [new]))))"
    unfolding updatedTop_split by (rule sorted_sort_key)
  then show ?thesis by (simp add: sorted_append)
qed

lemma updatedTop_dropped_mset:
  "mset (cur @ [new]) - mset (updatedTop cur new) = mset (drop 10 (sort_key ms (cur @ [new])))"
proof -
  have "mset (cur @ [new]) = mset (updatedTop cur new @ drop 10 (sort_key ms (cur @ [new])))"
    unfolding updatedTop_split by simp
  then show ?thesis by simp
qed

lemma updatedTop_subset: "mset (updatedTop cur new) \<subseteq># mset (cur @ [new])"
proof -
  have "mset (cur @ [new]) = mset (updatedTop cur new @ drop 10 (sort_key ms (cur @ [new])))"
    unfolding updatedTop_split by simp
  then show ?thesis by simp
qed

lemma updatedTop_kept_le_dropped:
  assumes "k \<in> set (updatedTop cur new)"
    and "d \<in># mset (cur @ [new]) - mset (updatedTop cur new)"
  shows "ms k \<le> ms d"
proof -
  have "sorted (map ms (updatedTop cur new @ drop 10 (sort_key ms (cur @ [new]))))"
    unfolding updatedTop_split by (rule sorted_sort_key)
  moreover have "d \<in> set (drop 10 (sort_key ms (cur @ [new])))"
    using assms(2) unfolding updatedTop_dropped_mset by simp
  ultimately show ?thesis
    using assms(1) by (auto simp: sorted_append)
qed

lemma updatedTop_ties:
  "prefix (filter (\<lambda>e. ms e = v) (updatedTop cur new)) (filter (\<lambda>e. ms e = v) (cur @ [new]))"
proof -
  have "filter (\<lambda>e. ms e = v) (cur @ [new]) =
        filter (\<lambda>e. ms e = v) (updatedTop cur new @ drop 10 (sort_key ms (cur @ [new])))"
    unfolding updatedTop_split by (simp only: sort_key_stable)
  then show ?thesis by (simp add: prefix_def)
qed

text \<open>
  Claim C1. For every current list of entries and every new entry, the merged list is
  the new entry appended to the current ones, ordered by ascending value and cut to ten:
  it is sorted by value; for each value, its entries of that value are an initial
  segment of the entries of that value in the order of insertion (current entries first,
  the new one last), so ties go to the entry submitted first; it has
  \<open>min 10 (length cur + 1)\<close> entries, never more than ten; it holds only entries of the
  input; and every entry it keeps has a value no larger than every entry it drops.
\<close>

theorem updatedTop_merge:
  "sorted (map ms (updatedTop cur new)) \<and>
   (\<forall>v. prefix (filter (\<lambda>e. ms e = v) (updatedTop cur new))
                 (filter (\<lambda>e. ms e = v) (cur @ [new]))) \<and>
   length (updatedTop cur new) = min 10 (length cur + 1) \<and>
   length (updatedTop cur new) \<le> 10 \<and>
   mset (updatedTop cur new) \<subseteq># mset (cur @ [new]) \<and>
   (\<forall>k \<in> set (updatedTop cur new).
      \<forall>d \<in># mset (cur @ [new]) - mset (updatedTop cur new). ms k \<le> ms d)"
  using updatedTop_sorted updatedTop_ties updatedTop_length updatedTop_subset
    updatedTop_kept_le_dropped
  by (metis min.cobounded1)

section \<open>New record\<close>

lemma sorted_head_Min:
  assumes "sorted (map ms (e # es))"
  shows "Min (ms ` set (e # es)) = ms e"
proof (rule Min_eqI)
  show "finite (ms ` set (e # es))" by simp
  show "\<And>y. y \<in> ms ` set (e # es) \<Longrightarrow> ms e \<le> y" using assms by auto
  show "ms e \<in> ms ` set (e # es)" by simp
qed

text \<open>
  The invariant of the leaderboard document: whatever the current entries are, the
  merged list is sorted, and it holds no value 0 when the current entries hold none and
  the new value has passed the validation.
\<close>

lemma updatedTop_invariant:
  assumes "\<forall>e \<in> set cur. ms e \<noteq> 0" and "\<not> invalid_ms (JNum (ms new))"
  shows "sorted (map ms (updatedTop cur new)) \<and> (\<forall>e \<in> set (updatedTop cur new). ms e \<noteq> 0)"
proof -
  have "ms new \<noteq> 0" using assms(2) by (auto simp: invalid_ms_def)
  moreover have "set (updatedTop cur new) \<subseteq> set (cur @ [new])"
    using set_mset_mono [OF updatedTop_subset [of cur new]] by simp
  ultimately show ?thesis using assms(1) updatedTop_sorted [of cur new] by auto
qed

text \<open>
  Claim C3. For a leaderboard that satisfies the invariant of the data model (entries in
  ascending order of value, every stored value a validated one, hence not 0),
  \<open>isNewRecord\<close> holds exactly when the new value is at most the smallest value among
  the entries present before the insertion, an empty leaderboard having no record to
  beat; it holds for the first entry merged into an empty leaderboard, and it fails for
  every value strictly greater than the current best.
\<close>

theorem isNewRecord_best:
  assumes "sorted (map ms cur)" and "\<forall>e \<in> set cur. ms e \<noteq> 0"
  shows "(isNewRecord cur m \<longleftrightarrow> (cur = [] \<or> m \<le> Min (ms ` set cur))) \<and>
         isNewRecord [] m \<and>
         (cur \<noteq> [] \<and> Min (ms ` set cur) < m \<longrightarrow> \<not> isNewRecord cur m)"
proof (cases cur)
  case Nil
  then show ?thesis by (simp add: isNewRecord_def firstMs_def)
next
  case (Cons e es)
  have "Min (ms ` set cur) = ms e"
    using assms(1) unfolding Cons by (rule sorted_head_Min)
  moreover have "ms e \<noteq> 0" using assms(2) Cons by simp
  ultimately show ?thesis
    using Cons by (auto simp: isNewRecord_def firstMs_def)
qed

section \<open>Rank\<close>

lemma findIndex_ge: "- 1 \<le> findIndex P xs"
  by (induction xs) (auto simp: Let_def)

lemma findIndex_none: "findIndex P xs = - 1 \<longleftrightarrow> (\<forall>x \<in> set xs. \<not> P x)"
proof (induction xs)
  case Nil
  show ?case by simp
next
  case (Cons x xs)
  have "- 1 \<le> findIndex P xs" by (rule findIndex_ge)
  with Cons show ?case by (auto simp: Let_def)
qed

lemma findIndex_found:
  "findIndex P xs \<noteq> - 1 \<Longrightarrow>
     0 \<le> findIndex P xs \<and> nat (findIndex P xs) < length xs \<and> P (xs ! nat (findIndex P xs))"
proof (induction xs)
  case Nil
  then show ?case by simp
next
  case (Cons x xs)
  show ?case
  proof (cases "P x")
    case True
    then show ?thesis by simp
  next
    case False
    with Cons.prems have ne: "findIndex P xs \<noteq> - 1" by (auto simp: Let_def)
    from Cons.IH [OF ne] have ih: "0 \<le> findIndex P xs" "nat (findIndex P xs) < length xs"
      "P (xs ! nat (findIndex P xs))" by auto
    have "nat (findIndex P xs + 1) = Suc (nat (findIndex P xs))" using ih(1) by simp
    with False ne ih show ?thesis by (simp add: Let_def)
  qed
qed

lemma count_le1_unique:
  "count (mset xs) x \<le> 1 \<Longrightarrow> i < length xs \<Longrightarrow> j < length xs \<Longrightarrow> xs ! i = x \<Longrightarrow> xs ! j = x
     \<Longrightarrow> i = j"
proof (induction xs arbitrary: i j)
  case Nil
  then show ?case by simp
next
  case (Cons y ys)
  show ?case
  proof (cases i)
    case 0
    show ?thesis
    proof (cases j)
      case 0
      with \<open>i = 0\<close> show ?thesis by simp
    next
      case (Suc j')
      with Cons.prems \<open>i = 0\<close> have "y = x" "x \<in> set ys" by auto
      then have "count (mset (y # ys)) x \<ge> 2" by (simp add: Suc_le_eq)
      with Cons.prems(1) show ?thesis by simp
    qed
  next
    case (Suc i')
    show ?thesis
    proof (cases j)
      case 0
      with Cons.prems Suc have "y = x" "x \<in> set ys" by auto
      then have "count (mset (y # ys)) x \<ge> 2" by (simp add: Suc_le_eq)
      with Cons.prems(1) show ?thesis by simp
    next
      case (Suc j')
      have "count (mset ys) x \<le> count (mset (y # ys)) x" by simp
      with Cons.prems(1) have "count (mset ys) x \<le> 1" by linarith
      from Cons.IH [OF this, of i' j'] Cons.prems \<open>i = Suc i'\<close> Suc show ?thesis by simp
    qed
  qed
qed

lemma fresh_unique:
  assumes "id_tok new \<notin> id_tok ` set cur"
  shows "count (mset (updatedTop cur new)) new \<le> 1"
proof -
  have "new \<notin> set cur" using assms by auto
  then have "count (mset cur) new = 0" by simp
  then have "count (mset (cur @ [new])) new = 1" by simp
  moreover have "count (mset (updatedTop cur new)) new \<le> count (mset (cur @ [new])) new"
    using updatedTop_subset by (rule mset_subset_eq_count)
  ultimately show ?thesis by linarith
qed

lemma fresh_identifies:
  assumes "id_tok new \<notin> id_tok ` set cur" and "e \<in> set (updatedTop cur new)"
  shows "id_tok e = id_tok new \<longleftrightarrow> e = new"
proof -
  have "e \<in> set (cur @ [new])"
    using assms(2) updatedTop_subset [of cur new] by (meson mset_subset_eqD in_multiset_in_set)
  then have "e \<in> set cur \<or> e = new" by auto
  then show ?thesis using assms(1) by (metis imageI)
qed

lemma example_merge:
  assumes "ms e1 = 142" "ms e2 = 200" "id_tok e2 \<noteq> id_tok e1"
  shows "updatedTop [] e1 = [e1] \<and> rank (updatedTop [] e1) (id_tok e1) = Some 1 \<and>
     isNewRecord [] (ms e1) \<and>
     updatedTop [e1] e2 = [e1, e2] \<and> rank (updatedTop [e1] e2) (id_tok e2) = Some 2 \<and>
     \<not> isNewRecord [e1] (ms e2)"
  using assms by (simp add: updatedTop_def rank_def position_def isNewRecord_def firstMs_def)

text \<open>
  The rank where the generated \<^verbatim>\<open>id\<close> is unique, as the function takes it to be: when the
  \<^verbatim>\<open>id\<close> of the new entry differs from the \<^verbatim>\<open>id\<close> of every current entry, the returned
  rank is the 1-based position of the new entry in the truncated result (the only
  position where the entry stands), and it is \<^verbatim>\<open>null\<close> exactly when the entry is not in
  the truncated result. In particular a value of 142 merged into an empty leaderboard
  gives rank 1 and a new record, and a following value of 200 under another \<^verbatim>\<open>id\<close> gives
  the entries 142, 200, rank 2 and no new record.
\<close>

lemma rank_is_position:
  assumes "id_tok new \<notin> id_tok ` set cur"
  shows "(case rank (updatedTop cur new) (id_tok new) of
            None \<Rightarrow> new \<notin> set (updatedTop cur new)
          | Some r \<Rightarrow> 1 \<le> r \<and> nat r \<le> length (updatedTop cur new) \<and>
              updatedTop cur new ! nat (r - 1) = new \<and>
              (\<forall>j < length (updatedTop cur new). updatedTop cur new ! j = new \<longrightarrow> int j + 1 = r)) \<and>
         (ms e1 = 142 \<and> ms e2 = 200 \<and> id_tok e2 \<noteq> id_tok e1 \<longrightarrow>
            updatedTop [] e1 = [e1] \<and> rank (updatedTop [] e1) (id_tok e1) = Some 1 \<and>
            isNewRecord [] (ms e1) \<and>
            updatedTop [e1] e2 = [e1, e2] \<and> rank (updatedTop [e1] e2) (id_tok e2) = Some 2 \<and>
            \<not> isNewRecord [e1] (ms e2))"
proof -
  let ?t = "updatedTop cur new"
  let ?i = "findIndex (\<lambda>s. id_tok s = id_tok new) ?t"
  have first: "case rank ?t (id_tok new) of
            None \<Rightarrow> new \<notin> set ?t
          | Some r \<Rightarrow> 1 \<le> r \<and> nat r \<le> length ?t \<and> ?t ! nat (r - 1) = new \<and>
              (\<forall>j < length ?t. ?t ! j = new \<longrightarrow> int j + 1 = r)"
  proof (cases "?i = - 1")
    case True
    then have "\<forall>x \<in> set ?t. id_tok x \<noteq> id_tok new" by (simp add: findIndex_none)
    then have "new \<notin> set ?t" by auto
    with True show ?thesis by (simp add: rank_def position_def)
  next
    case False
    from findIndex_found [OF False]
    have i: "0 \<le> ?i" "nat ?i < length ?t" "id_tok (?t ! nat ?i) = id_tok new" by auto
    have "?t ! nat ?i \<in> set ?t" using i(2) by simp
    with fresh_identifies [OF assms] i(3) have at: "?t ! nat ?i = new" by blast
    have uniq: "\<forall>j < length ?t. ?t ! j = new \<longrightarrow> int j + 1 = ?i + 1"
    proof (intro allI impI)
      fix j assume "j < length ?t" "?t ! j = new"
      with count_le1_unique [OF fresh_unique [OF assms] i(2) _ at] have "nat ?i = j" by blast
      then show "int j + 1 = ?i + 1" using i(1) by simp
    qed
    have r: "rank ?t (id_tok new) = Some (?i + 1)"
      using i(1) by (simp add: rank_def position_def)
    have "nat (?i + 1) \<le> length ?t" using i by simp
    with r i at uniq show ?thesis by simp
  qed
  show ?thesis using first example_merge [of e1 e2] by blast
qed

section \<open>Season number\<close>

text \<open>
  Claim C5. For every instant (in particular every instant at or after the epoch
  2025-01-15T00:00:00Z), the season number that the season reset function computes and
  the one that the score function computes both equal the specification's
  \<open>floor ((now - epoch) / periodLength) + 1\<close> for a period of 90 days, and so equal
  each other.
\<close>

theorem currentSeason_refines:
  "reset_currentSeason now = spec_currentSeason seasonStart periodLength now \<and>
   score_currentSeason now = spec_currentSeason seasonStart periodLength now \<and>
   score_currentSeason now = reset_currentSeason now"
proof -
  have "(now - seasonStart) div (90 * (1000 * 60 * 60 * 24)) =
        (now - seasonStart) div (1000 * 60 * 60 * 24) div 90"
    by (simp add: zdiv_zmult2_eq mult.commute)
  then show ?thesis
    by (simp add: reset_currentSeason_def reset_daysSinceStart_def score_currentSeason_def
        score_daysSinceStart_def spec_currentSeason_def periodLength_def)
qed

section \<open>Concrete instances of the merge\<close>

lemma ms_entry: "ms (entry m i) = m" and id_entry: "id_tok (entry m i) = i"
  by (simp_all add: entry_def)

lemma full_board_merge:
  "updatedTop full_board (entry 150 ''n'') =
     [entry 100 ''e0'', entry 110 ''e1'', entry 120 ''e2'', entry 130 ''e3'', entry 140 ''e4'',
      entry 150 ''e5'', entry 150 ''n'', entry 160 ''e6'', entry 170 ''e7'', entry 180 ''e8'']"
  by (simp add: updatedTop_def full_board_def ms_entry)

text \<open>The merge of a full leaderboard with a value of 150: the entry of value 190 is dropped.\<close>

theorem updatedTop_merge_witness:
  "updatedTop full_board (entry 150 ''n'') =
     [entry 100 ''e0'', entry 110 ''e1'', entry 120 ''e2'', entry 130 ''e3'', entry 140 ''e4'',
      entry 150 ''e5'', entry 150 ''n'', entry 160 ''e6'', entry 170 ''e7'', entry 180 ''e8''] \<and>
   entry 180 ''e8'' \<in> set (updatedTop full_board (entry 150 ''n'')) \<and>
   entry 190 ''e9'' \<in># mset (full_board @ [entry 150 ''n'']) - mset (updatedTop full_board (entry 150 ''n'')) \<and>
   ms (entry 180 ''e8'') \<le> ms (entry 190 ''e9'') \<and>
   length (updatedTop full_board (entry 150 ''n'')) = 10"
proof -
  have kept: "entry 180 ''e8'' \<in> set (updatedTop full_board (entry 150 ''n''))"
    unfolding full_board_merge by simp
  have dropped: "entry 190 ''e9'' \<in>#
      mset (full_board @ [entry 150 ''n'']) - mset (updatedTop full_board (entry 150 ''n''))"
    unfolding full_board_merge by (simp add: full_board_def)
  have "ms (entry 180 ''e8'') \<le> ms (entry 190 ''e9'')"
    using updatedTop_merge [of full_board "entry 150 ''n''"] kept dropped by blast
  moreover have "length (updatedTop full_board (entry 150 ''n'')) = 10"
    using updatedTop_merge [of full_board "entry 150 ''n''"] by (simp add: full_board_def)
  ultimately show ?thesis using kept dropped full_board_merge by blast
qed

text \<open>A leaderboard whose best value is 142: 142 is a record, 200 is not.\<close>

theorem isNewRecord_best_witness:
  "isNewRecord [entry 142 ''a''] 142 \<and> \<not> isNewRecord [entry 142 ''a''] 200 \<and>
   isNewRecord [] 142 \<and> Min (ms ` set [entry 142 ''a'']) = 142"
proof -
  have s: "sorted (map ms [entry 142 ''a''])" by simp
  have z: "\<forall>e \<in> set [entry 142 ''a'']. ms e \<noteq> 0" by (simp add: ms_entry)
  have m: "Min (ms ` set [entry 142 ''a'']) = 142" by (simp add: ms_entry)
  show ?thesis
    using isNewRecord_best [OF s z, of 142] isNewRecord_best [OF s z, of 200] m by simp
qed

text \<open>Ranks in a full leaderboard (seventh place, and outside the ten), and the example.\<close>

lemma rank_is_position_example:
  "rank (updatedTop full_board (entry 150 ''n'')) ''n'' = Some 7 \<and>
   updatedTop full_board (entry 150 ''n'') ! 6 = entry 150 ''n'' \<and>
   rank (updatedTop full_board (entry 195 ''m'')) ''m'' = None \<and>
   entry 195 ''m'' \<notin> set (updatedTop full_board (entry 195 ''m'')) \<and>
   updatedTop [entry 142 ''a''] (entry 200 ''b'') = [entry 142 ''a'', entry 200 ''b''] \<and>
   rank (updatedTop [entry 142 ''a''] (entry 200 ''b'')) ''b'' = Some 2"
proof -
  have f1: "id_tok (entry 150 ''n'') \<notin> id_tok ` set full_board"
    by (simp add: full_board_def id_entry)
  have f2: "id_tok (entry 195 ''m'') \<notin> id_tok ` set full_board"
    by (simp add: full_board_def id_entry)
  have r1: "rank (updatedTop full_board (entry 150 ''n'')) ''n'' = Some 7"
    unfolding full_board_merge by (simp add: rank_def position_def id_entry)
  have r2: "rank (updatedTop full_board (entry 195 ''m'')) ''m'' = None"
    by (simp add: updatedTop_def full_board_def ms_entry rank_def position_def id_entry)
  have ex: "ms (entry 142 ''a'') = 142 \<and> ms (entry 200 ''b'') = 200 \<and>
      id_tok (entry 200 ''b'') \<noteq> id_tok (entry 142 ''a'')"
    by (simp add: ms_entry id_entry)
  show ?thesis
    using rank_is_position [OF f1, of "entry 142 ''a''" "entry 200 ''b''"]
      rank_is_position [OF f2, of "entry 142 ''a''" "entry 200 ''b''"] r1 r2 ex
    by (simp add: id_entry)
qed

text \<open>
  Claim C4. The rank returned is to be the 1-based position of the new entry in the
  truncated result. The function looks the new entry up by its \<^verbatim>\<open>id\<close>, which it draws
  from \<^verbatim>\<open>Math.random\<close> and takes to be unique; \<^verbatim>\<open>findIndex\<close> stops at the first entry
  carrying that \<^verbatim>\<open>id\<close>. With a stored entry of value 100 and \<^verbatim>\<open>id\<close> \<^verbatim>\<open>a\<close> (what
  \<^verbatim>\<open>Math.random\<close> gives for 0.625), a new entry of value 200 that draws the same \<^verbatim>\<open>id\<close>
  stands second in the result and the rank returned is 1.
\<close>

theorem rank_collision:
  "rank (updatedTop [entry 100 ''a''] (entry 200 ''a'')) (id_tok (entry 200 ''a'')) = Some 1 \<and>
   updatedTop [entry 100 ''a''] (entry 200 ''a'') = [entry 100 ''a'', entry 200 ''a''] \<and>
   [entry 100 ''a'', entry 200 ''a''] ! 1 = entry 200 ''a'' \<and>
   [entry 100 ''a'', entry 200 ''a''] ! 0 \<noteq> entry 200 ''a''"
  by (simp add: updatedTop_def rank_def position_def entry_def)

section \<open>Validation and method check\<close>

lemma invalid_ms_iff: "invalid_ms v \<longleftrightarrow> \<not> (\<exists>r. v = JNum r \<and> 80 \<le> r \<and> r \<le> 1000)"
  by (cases v) (auto simp: invalid_ms_def)

text \<open>
  A POST request whose body destructures and whose value is not a number, or is a
  number outside \<open>80 \<le> value \<le> 1000\<close>, is answered with status 400 and the validation
  message; no request has left the function (no token exchange, no store read, no store
  write) and the store is unchanged.
\<close>

lemma invalid_value_rejected:
  assumes "httpMethod ev = ''POST''"
    and "body ev = Destructured v pn pid"
    and "\<not> (\<exists>r. v = JNum r \<and> 80 \<le> r \<and> r \<le> 1000)"
  shows "save_reaction_score w ev st =
     (\<lparr>statusCode = 400,
       resp_body = ErrorOnly ''Invalid reaction time. Must be between 80-1000ms.''\<rparr>, st, [])"
proof -
  have "invalid_ms v" using assms(3) by (simp add: invalid_ms_iff)
  then show ?thesis using assms(1,2) by (simp add: save_reaction_score_def)
qed

text \<open>A value of 50, and a value that is the string \<^verbatim>\<open>"142"\<close>.\<close>

lemma invalid_value_rejected_example:
  "save_reaction_score (quiet_world ''x'') (submission 50) fresh_store =
     (\<lparr>statusCode = 400,
       resp_body = ErrorOnly ''Invalid reaction time. Must be between 80-1000ms.''\<rparr>,
      fresh_store, []) \<and>
   save_reaction_score (quiet_world ''x'')
       \<lparr>httpMethod = ''POST'', body = Destructured (JStr ''142'') JUndefined JUndefined\<rparr> fresh_store =
     (\<lparr>statusCode = 400,
       resp_body = ErrorOnly ''Invalid reaction time. Must be between 80-1000ms.''\<rparr>,
      fresh_store, [])"
proof -
  have a: "httpMethod (submission 50) = ''POST''"
    and b: "body (submission 50) = Destructured (JNum 50) JUndefined JUndefined"
    and c: "\<not> (\<exists>r. JNum 50 = JNum r \<and> 80 \<le> r \<and> r \<le> 1000)"
    by (simp_all add: submission_def)
  have c': "\<not> (\<exists>r. JStr ''142'' = JNum r \<and> 80 \<le> r \<and> r \<le> 1000)" by simp
  show ?thesis
    using invalid_value_rejected [OF a b c, of "quiet_world ''x''" fresh_store]
      invalid_value_rejected [OF _ _ c', of
        "\<lparr>httpMethod = ''POST'', body = Destructured (JStr ''142'') JUndefined JUndefined\<rparr>"
        JUndefined JUndefined "quiet_world ''x''" fresh_store]
    by simp
qed

text \<open>
  Claim C2. A submission without a numeric value in range is to be answered with the
  client error 400 before any store access. \<^verbatim>\<open>JSON.parse\<close> and the destructuring stand
  inside the \<^verbatim>\<open>try\<close> block, before the validation: a POST request whose body is not
  JSON (or is \<^verbatim>\<open>null\<close>, or is absent) throws there and is answered by the \<^verbatim>\<open>catch\<close>
  block with status 500 \<open>Failed to save score\<close>, not with status 400. No request has
  left the function and the store is unchanged.
\<close>

theorem unparsable_body_answered_500:
  "save_reaction_score (quiet_world ''x'') garbled_request fresh_store =
     (\<lparr>statusCode = 500,
       resp_body = ErrorDetails ''Failed to save score''
         (Thrown ''Unexpected token o in JSON at position 1'')\<rparr>,
      fresh_store, [])"
  by (simp add: save_reaction_score_def garbled_request_def save_failed_def)

text \<open>
  Claim C10. For every request whose method is not POST, the score function, the season
  reset function and the key check function answer 405 \<open>Method not allowed\<close>; no request
  has left the function and the store is unchanged.
\<close>

theorem not_post_rejected:
  assumes "httpMethod ev \<noteq> ''POST''"
  shows "save_reaction_score w ev st =
           (\<lparr>statusCode = 405, resp_body = ErrorOnly ''Method not allowed''\<rparr>, st, []) \<and>
         season_reset rw ev st =
           (\<lparr>statusCode = 405, resp_body = ErrorOnly ''Method not allowed''\<rparr>, st, []) \<and>
         debug_key dw ev =
           (\<lparr>statusCode = 405, resp_body = ErrorOnly ''Method not allowed''\<rparr>, [])"
  using assms by (simp add: save_reaction_score_def season_reset_def debug_key_def)

text \<open>A GET request to each of the three functions.\<close>

theorem not_post_rejected_witness:
  "save_reaction_score (quiet_world ''x'') get_request fresh_store =
           (\<lparr>statusCode = 405, resp_body = ErrorOnly ''Method not allowed''\<rparr>, fresh_store, []) \<and>
   season_reset (admin_world seasonStart) get_request fresh_store =
           (\<lparr>statusCode = 405, resp_body = ErrorOnly ''Method not allowed''\<rparr>, fresh_store, []) \<and>
   debug_key keys_world get_request =
           (\<lparr>statusCode = 405, resp_body = ErrorOnly ''Method not allowed''\<rparr>, [])"
proof -
  have "httpMethod get_request \<noteq> ''POST''" by (simp add: get_request_def)
  then show ?thesis by (rule not_post_rejected)
qed

section \<open>The latest document\<close>





lemma store_put_other:
  "store_put a t st p c k = Inr st' \<Longrightarrow> q \<noteq> p \<Longrightarrow> st' q = st q"
  by (auto simp: store_put_def split: option.splits if_splits)










section \<open>Season rotation\<close>

lemma store_put_create:
  "st p = None \<Longrightarrow>
     store_put True None st p c None = Inr (st(p \<mapsto> \<lparr>content = c, sha = 0\<rparr>))"
  by (simp add: store_put_def)

lemma store_put_exists_tokenless:
  "st p = Some f \<Longrightarrow>
     store_put a t st p c None =
       Inl (case t of Some r \<Rightarrow> r
            | None \<Rightarrow> if a then Refused ShaRequired else Refused BadCredentials)"
  by (simp add: store_put_def split: option.splits)

lemma rotate_archived:
  assumes "st (ArchiveJson (reset_currentSeason (currentDate w))) = Some f"
  shows "rotate w a st =
     (reset_failed (RequestError
        (case reset_trouble w (StoreWrite (ArchiveJson (reset_currentSeason (currentDate w)))) of
           Some r \<Rightarrow> r
         | None \<Rightarrow> if a then Refused ShaRequired else Refused BadCredentials)), st,
      [TokenExchange, StoreRead TopJson, StoreWrite (ArchiveJson (reset_currentSeason (currentDate w)))])"
proof -
  have "store_put a (reset_trouble w (StoreWrite (ArchiveJson (reset_currentSeason (currentDate w)))))
      st (ArchiveJson (reset_currentSeason (currentDate w))) c None =
      Inl (case reset_trouble w (StoreWrite (ArchiveJson (reset_currentSeason (currentDate w)))) of
             Some r \<Rightarrow> r
           | None \<Rightarrow> if a then Refused ShaRequired else Refused BadCredentials)" for c
    using assms by (rule store_put_exists_tokenless)
  then show ?thesis by (simp add: rotate_def Let_def)
qed

text \<open>
  Claim C7, as amended. A rotation for a season whose archive path already exists (the
  second rotation for the same season number) fails: the function makes no check of its
  own and has no \<open>AlreadyArchived\<close> answer; its archive write is a create-or-update
  request without a version token, which the store refuses on an existing path (when it
  serves the request at all), and the answer is the function's one failure answer,
  status 500 \<open>Failed to reset season\<close>. Nothing has been written: the archive of the
  first rotation and every other document are unchanged.
\<close>

theorem rotation_of_archived_season:
  assumes "httpMethod ev = ''POST''"
    and "st (ArchiveJson (reset_currentSeason (currentDate w))) = Some f"
  shows "statusCode (fst (season_reset w ev st)) = 500 \<and>
         (\<exists>d. resp_body (fst (season_reset w ev st)) = ResetFailed ''Failed to reset season'' d) \<and>
         fst (snd (season_reset w ev st)) = st \<and>
         (credentials_present w \<and> reset_credential w = Granted \<and>
          reset_trouble w (StoreWrite (ArchiveJson (reset_currentSeason (currentDate w)))) = None \<longrightarrow>
            fst (season_reset w ev st) = reset_failed (RequestError (Refused ShaRequired)))"
proof -
  note r = rotate_archived [where w = w and st = st, OF assms(2)]
  show ?thesis
    using assms(1) by (cases "reset_credential w") (simp_all add: season_reset_def reset_failed_def r)
qed

lemma first_season: "reset_currentSeason (seasonStart + 1000) = 1"
  by (simp add: reset_currentSeason_def reset_daysSinceStart_def seasonStart_def)

lemma first_rotation:
  "season_reset (admin_world (seasonStart + 1000)) reset_request Map.empty =
     (\<lparr>statusCode = 200, resp_body = SeasonReset 1 2\<rparr>,
      [ArchiveJson 1 \<mapsto> \<lparr>content = ArchiveData 1 (seasonStart + 1000) [] 0, sha = 0\<rparr>,
       TopJson \<mapsto> \<lparr>content = NewTopScores [] (seasonStart + 1000) 2
          (seasonStart + 1 * 90 * 24 * 60 * 60 * 1000), sha = 0\<rparr>,
       LatestJson \<mapsto> \<lparr>content = NewLatestScore (seasonStart + 1000) 2, sha = 0\<rparr>],
      [TokenExchange, StoreRead TopJson, StoreWrite (ArchiveJson 1), StoreWrite TopJson,
       StoreWrite LatestJson])"
  by (simp add: season_reset_def admin_world_def reset_request_def rotate_def Let_def first_season
      store_put_def store_get_def archived_scores_def)

text \<open>Two rotations in the first season, starting from an empty store.\<close>

theorem rotation_of_archived_season_witness:
  "statusCode (fst (season_reset (admin_world (seasonStart + 1000)) reset_request Map.empty)) = 200 \<and>
   fst (season_reset (admin_world (seasonStart + 1000)) reset_request
         (fst (snd (season_reset (admin_world (seasonStart + 1000)) reset_request Map.empty)))) =
     reset_failed (RequestError (Refused ShaRequired)) \<and>
   fst (snd (season_reset (admin_world (seasonStart + 1000)) reset_request
         (fst (snd (season_reset (admin_world (seasonStart + 1000)) reset_request Map.empty))))) =
     fst (snd (season_reset (admin_world (seasonStart + 1000)) reset_request Map.empty))"
proof -
  let ?w = "admin_world (seasonStart + 1000)"
  let ?st1 = "fst (snd (season_reset ?w reset_request Map.empty))"
  have a: "httpMethod reset_request = ''POST''" by (simp add: reset_request_def)
  have b: "?st1 (ArchiveJson (reset_currentSeason (currentDate ?w))) =
      Some \<lparr>content = ArchiveData 1 (seasonStart + 1000) [] 0, sha = 0\<rparr>"
    by (simp add: first_rotation) (simp add: admin_world_def first_season)
  have c: "credentials_present ?w \<and> reset_credential ?w = Granted \<and>
      reset_trouble ?w (StoreWrite (ArchiveJson (reset_currentSeason (currentDate ?w)))) = None"
    by (simp add: admin_world_def)
  show ?thesis
    using rotation_of_archived_season [where ev = reset_request and w = ?w and st = ?st1, OF a b] c
    by (simp add: first_rotation)
qed

text \<open>
  Claim C7 as stated fails: the second rotation is not answered with a result of its
  own. Its answer is the very answer that a rotation of a season never archived gets
  when the store refuses the reset of the leaderboard.
\<close>

theorem already_archived_counterexample:
  "fst (season_reset (admin_world (seasonStart + 1000)) reset_request Map.empty) =
     \<lparr>statusCode = 200, resp_body = SeasonReset 1 2\<rparr> \<and>
   fst (season_reset (admin_world (seasonStart + 1000)) reset_request
         (fst (snd (season_reset (admin_world (seasonStart + 1000)) reset_request Map.empty)))) =
     \<lparr>statusCode = 500,
      resp_body = ResetFailed ''Failed to reset season'' (RequestError (Refused ShaRequired))\<rparr> \<and>
   fresh_store (ArchiveJson 1) = None \<and>
   fst (season_reset (admin_world (seasonStart + 1000)) reset_request fresh_store) =
     \<lparr>statusCode = 500,
      resp_body = ResetFailed ''Failed to reset season'' (RequestError (Refused ShaRequired))\<rparr>"
  by (simp add: first_rotation)
    (simp add: season_reset_def admin_world_def reset_request_def rotate_def Let_def first_season
      store_put_def store_get_def archived_scores_def reset_failed_def fresh_store_def)

lemma rotate_archive_path:
  assumes "store_put a (reset_trouble w (StoreWrite (ArchiveJson (reset_currentSeason (currentDate w)))))
      st (ArchiveJson (reset_currentSeason (currentDate w)))
      (ArchiveData (reset_currentSeason (currentDate w)) (currentDate w)
         (fst (archived_scores a (reset_trouble w (StoreRead TopJson)) st))
         (snd (archived_scores a (reset_trouble w (StoreRead TopJson)) st))) None = Inr st1"
  shows "fst (snd (rotate w a st)) (ArchiveJson m) = st1 (ArchiveJson m)"
proof (cases "store_put a (reset_trouble w (StoreWrite TopJson)) st1 TopJson
    (NewTopScores [] (currentDate w) (reset_currentSeason (currentDate w) + 1)
       (seasonStart + reset_currentSeason (currentDate w) * 90 * 24 * 60 * 60 * 1000)) None")
  case (Inl f)
  then show ?thesis using assms by (simp add: rotate_def Let_def)
next
  case top: (Inr st2)
  then have k2: "st2 (ArchiveJson m) = st1 (ArchiveJson m)"
    by (rule store_put_other) simp
  show ?thesis
  proof (cases "store_put a (reset_trouble w (StoreWrite LatestJson)) st2 LatestJson
      (NewLatestScore (currentDate w) (reset_currentSeason (currentDate w) + 1)) None")
    case (Inl f)
    then show ?thesis using assms top k2 by (simp add: rotate_def Let_def)
  next
    case (Inr st3)
    then have "st3 (ArchiveJson m) = st2 (ArchiveJson m)"
      by (rule store_put_other) simp
    then show ?thesis using assms top k2 Inr by (simp add: rotate_def Let_def)
  qed
qed

text \<open>
  Claim C8, as amended. During a rotation the season field of the archive document, and
  the season number in its path, are the season the function computes from the clock
  at rotation time (the document is written when the store serves the archive write);
  no other archive path is written, and the function takes nothing from the caller: two
  POST requests give the same result.
\<close>

theorem archive_season_from_clock:
  assumes "httpMethod ev = ''POST''"
    and "credentials_present w"
    and "reset_credential w = Granted"
    and "st (ArchiveJson (reset_currentSeason (currentDate w))) = None"
    and "reset_trouble w (StoreWrite (ArchiveJson (reset_currentSeason (currentDate w)))) = None"
  shows "map_option content
           (fst (snd (season_reset w ev st)) (ArchiveJson (reset_currentSeason (currentDate w)))) =
         Some (ArchiveData (reset_currentSeason (currentDate w)) (currentDate w)
                 (fst (archived_scores True (reset_trouble w (StoreRead TopJson)) st))
                 (snd (archived_scores True (reset_trouble w (StoreRead TopJson)) st))) \<and>
         (\<forall>n. n \<noteq> reset_currentSeason (currentDate w) \<longrightarrow>
            fst (snd (season_reset w ev st)) (ArchiveJson n) = st (ArchiveJson n)) \<and>
         (httpMethod ev' = ''POST'' \<longrightarrow> season_reset w ev' st = season_reset w ev st)"
proof -
  let ?n = "reset_currentSeason (currentDate w)"
  let ?c = "ArchiveData ?n (currentDate w)
      (fst (archived_scores True (reset_trouble w (StoreRead TopJson)) st))
      (snd (archived_scores True (reset_trouble w (StoreRead TopJson)) st))"
  let ?st1 = "st(ArchiveJson ?n \<mapsto> \<lparr>content = ?c, sha = 0\<rparr>)"
  have run: "season_reset w e st = rotate w True st" if "httpMethod e = ''POST''" for e
    using that assms(2,3) by (simp add: season_reset_def)
  have "store_put True None st (ArchiveJson ?n) ?c None = Inr ?st1"
    using assms(4) by (rule store_put_create)
  then have put: "store_put True (reset_trouble w (StoreWrite (ArchiveJson ?n))) st
      (ArchiveJson ?n) ?c None = Inr ?st1"
    by (simp only: assms(5))
  have same: "fst (snd (rotate w True st)) (ArchiveJson m) = ?st1 (ArchiveJson m)" for m
    using put by (rule rotate_archive_path)
  show ?thesis
    using assms(4) by (simp add: run [OF assms(1)] run same)
qed

lemma second_season: "reset_currentSeason (seasonStart + periodLength) = 2"
  by (simp add: reset_currentSeason_def reset_daysSinceStart_def seasonStart_def periodLength_def)

text \<open>A rotation of the first season from an empty store, under two request bodies.\<close>

theorem archive_season_from_clock_witness:
  "map_option content
     (fst (snd (season_reset (admin_world (seasonStart + 1000)) reset_request Map.empty))
        (ArchiveJson 1)) = Some (ArchiveData 1 (seasonStart + 1000) [] 0) \<and>
   fst (snd (season_reset (admin_world (seasonStart + 1000)) reset_request Map.empty))
        (ArchiveJson 2) = None \<and>
   season_reset (admin_world (seasonStart + 1000)) garbled_request Map.empty =
   season_reset (admin_world (seasonStart + 1000)) reset_request Map.empty"
proof -
  let ?w = "admin_world (seasonStart + 1000)"
  have a: "httpMethod reset_request = ''POST''" by (simp add: reset_request_def)
  have b: "credentials_present ?w" and c: "reset_credential ?w = Granted"
    by (simp_all add: admin_world_def)
  have d: "Map.empty (ArchiveJson (reset_currentSeason (currentDate ?w))) = None" by simp
  have e: "reset_trouble ?w (StoreWrite (ArchiveJson (reset_currentSeason (currentDate ?w)))) = None"
    by (simp add: admin_world_def)
  have n: "reset_currentSeason (currentDate ?w) = 1" by (simp add: admin_world_def first_season)
  have t: "archived_scores True (reset_trouble ?w (StoreRead TopJson)) Map.empty = ([], 0)"
    by (simp add: archived_scores_def store_get_def admin_world_def)
  have g: "httpMethod garbled_request = ''POST''" by (simp add: garbled_request_def)
  show ?thesis
    using archive_season_from_clock [where ev = reset_request and w = ?w and st = Map.empty
        and ev' = garbled_request, OF a b c d e] g
    by (simp add: n t) (simp add: admin_world_def)
qed

text \<open>
  Claim C8 as stated fails: the same request on the same store is archived as season 1
  or as season 2 according to the clock alone.
\<close>

theorem archive_season_counterexample:
  "map_option content
     (fst (snd (season_reset (admin_world (seasonStart + 1000)) reset_request Map.empty))
        (ArchiveJson 1)) = Some (ArchiveData 1 (seasonStart + 1000) [] 0) \<and>
   map_option content
     (fst (snd (season_reset (admin_world (seasonStart + periodLength)) reset_request Map.empty))
        (ArchiveJson 2)) = Some (ArchiveData 2 (seasonStart + periodLength) [] 0)"
  by (simp add: season_reset_def admin_world_def reset_request_def rotate_def Let_def
      second_season first_season store_put_def store_get_def archived_scores_def)

section \<open>Error reporting\<close>










lemma save_all_served:
  "httpMethod ev = ''POST'' \<and> body ev = Destructured v pn pid \<and> \<not> invalid_ms v \<and>
   credential w = Granted \<and>
   store_get True (trouble w (StoreRead LatestJson)) st LatestJson = Inr latestFile \<and>
   store_get True (trouble w (StoreRead TopJson)) st TopJson = Inr topFile \<and>
   store_put True (trouble w (StoreWrite LatestJson)) (concurrent w st) LatestJson
     (Score (newScore w v pn pid)) (Some (sha latestFile)) = Inr st2 \<and>
   store_put True (trouble w (StoreWrite TopJson)) st2 TopJson
     (TopData (updatedTop (doc_top (content topFile)) (newScore w v pn pid)) (clock_timestamp w))
     (Some (sha topFile)) = Inr st3 \<longrightarrow>
     fst (save_reaction_score w ev st) =
       \<lparr>statusCode = 200,
        resp_body = ScoreSaved (newScore w v pn pid)
          (isNewRecord (doc_top (content topFile)) (ms (newScore w v pn pid)))
          (rank (updatedTop (doc_top (content topFile)) (newScore w v pn pid))
             (id_tok (newScore w v pn pid)))\<rparr> \<and>
     fst (snd (save_reaction_score w ev st)) = st3"
  by (simp add: save_reaction_score_def save_documents_def getGitHubFile_def
      updateGitHubFile_def Let_def newScore_def split: refusal.splits)



















end
